theory Spec2Isabelle
  imports Complex_Main "HOL-Library.AList" "HOL-Library.Char_ord" "HOL-Library.List_Lexorder"
begin

section \<open>Data model (db/database)\<close>

text \<open>
  The SQLite file is external to the program. A table is the list of its rows in storage
  order; a table that the file does not contain is \<open>None\<close>. \<open>fault\<close> is an engine-level
  failure that makes every statement raise (a closed connection raises
  \<open>database is closed\<close>). A table has fewer than \<open>2^53\<close> rows, so that a row count is
  a JavaScript number without rounding.

  Numbers are JavaScript numbers in the source, that is IEEE doubles. The model has the
  integer-valued ones, each as its value of type \<open>int\<close>; an integer that no double
  holds (such as \<open>2^53 + 1\<close>) is not an input of the code. Arithmetic rounds its exact
  result to the nearest double (\<open>round_double\<close>), which changes nothing up to \<open>2^53\<close>.
\<close>

record book_row =
  row_book_id :: int
  row_title :: string
  row_author :: string
  row_cover_image :: "string option"

record chapter_row =
  row_chapter_id :: int
  row_chapter_book_id :: int
  row_chapter_number :: int
  row_chapter_title :: "string option"
  row_body_text :: string

record database =
  fault :: "string option"
  books_table :: "book_row list option"
  chapters_table :: "chapter_row list option"

record Book =
  book_id :: int
  title :: string
  author :: string
  cover_url :: string

record Chapter =
  chapter_id :: int
  chapter_book_id :: int
  chapter_number :: int
  chapter_title :: string
  body_text :: string

record Author =
  author_name :: string
  book_count :: int

text \<open>A value thrown by a rejected promise: an \<open>Error\<close> object with its message, or
  anything else.\<close>

datatype thrown = JsError string | NonError

subsection \<open>JavaScript and SQL primitives\<close>

fun startsWith :: "string \<Rightarrow> string \<Rightarrow> bool" where
  "startsWith s [] = True"
| "startsWith [] (p # ps) = False"
| "startsWith (c # cs) (p # ps) = (c = p \<and> startsWith cs ps)"

fun str_includes :: "string \<Rightarrow> string \<Rightarrow> bool" where
  "str_includes [] sub = (sub = [])"
| "str_includes (c # cs) sub = (startsWith (c # cs) sub \<or> str_includes cs sub)"

text \<open>An integer in a template string: its decimal digits (as JavaScript prints an
  integer below \<open>10^21\<close>).\<close>

definition digit_char :: "int \<Rightarrow> char" where
  "digit_char d = ''0123456789'' ! nat d"

function show_nat :: "int \<Rightarrow> string" where
  "show_nat n =
     (if n < 10 then [digit_char n] else show_nat (n div 10) @ [digit_char (n mod 10)])"
  by pat_completeness auto
termination
  by (relation "measure nat") auto

declare show_nat.simps [simp del]

definition show_int :: "int \<Rightarrow> string" where
  "show_int i = (if i < 0 then CHR ''-'' # show_nat (- i) else show_nat i)"

text \<open>The nearest double to an integer, ties to the even significand: up to \<open>2^53\<close> in
  magnitude every integer is a double; above, a double keeps the leading 53 bits. (From
  \<open>2^1024\<close> on the double is \<open>Infinity\<close>, which the model does not have; the only number
  computed here, the query offset, is refused by the engine long before.)\<close>

function bit_length :: "int \<Rightarrow> nat" where
  "bit_length n = (if n \<le> 0 then 0 else Suc (bit_length (n div 2)))"
  by pat_completeness auto
termination
  by (relation "measure nat") auto

declare bit_length.simps [simp del]

definition round_double :: "int \<Rightarrow> int" where
  "round_double x =
     (if \<bar>x\<bar> \<le> 9007199254740992 then x
      else
        (let e = bit_length \<bar>x\<bar> - 53;
             q = \<bar>x\<bar> div 2 ^ e;
             r = \<bar>x\<bar> mod 2 ^ e;
             h = 2 ^ (e - 1)
         in sgn x * (if h < r \<or> (r = h \<and> odd q) then q + 1 else q) * 2 ^ e))"

text \<open>\<open>x || d\<close> on an optional number: \<open>undefined\<close> and \<open>0\<close> are falsy.\<close>

definition num_or :: "int option \<Rightarrow> int \<Rightarrow> int" where
  "num_or x d = (case x of None \<Rightarrow> d | Some n \<Rightarrow> if n = 0 then d else n)"

text \<open>Truthiness of an optional string: \<open>undefined\<close>, \<open>null\<close> and \<open>''\<close> are falsy.\<close>

definition truthy_str :: "string option \<Rightarrow> bool" where
  "truthy_str x = (case x of None \<Rightarrow> False | Some s \<Rightarrow> s \<noteq> [])"

definition to_lower_ascii :: "char \<Rightarrow> char" where
  "to_lower_ascii c =
     (case map_of (zip ''ABCDEFGHIJKLMNOPQRSTUVWXYZ'' ''abcdefghijklmnopqrstuvwxyz'') c of
        Some l \<Rightarrow> l
      | None \<Rightarrow> c)"

text \<open>SQLite's \<open>text LIKE pattern\<close>: \<open>%\<close> matches any run of characters, \<open>_\<close> one
  character, and letters compare without case in the ASCII range.\<close>

fun sql_like :: "string \<Rightarrow> string \<Rightarrow> bool" where
  "sql_like [] t = (t = [])"
| "sql_like (p # ps) [] = (p = CHR ''%'' \<and> sql_like ps [])"
| "sql_like (p # ps) (c # cs) =
     (if p = CHR ''%'' then sql_like ps (c # cs) \<or> sql_like (p # ps) cs
      else (p = CHR ''_'' \<or> to_lower_ascii p = to_lower_ascii c) \<and> sql_like ps cs)"

text \<open>A number bound to \<open>LIMIT ?\<close> or \<open>OFFSET ?\<close> must be a 64-bit integer; the engine
  refuses any other with its mismatch error.\<close>

definition int64 :: "int \<Rightarrow> bool" where
  "int64 v = (- 9223372036854775808 \<le> v \<and> v < 9223372036854775808)"

text \<open>\<open>LIMIT ? OFFSET ?\<close>: the rows after the first \<open>k\<close>, at most \<open>n\<close> of them; a negative
  limit means no limit, a negative offset is 0. (An offset or a limit beyond the end is
  compared with the length, not counted down.)\<close>

definition sql_limit_offset :: "int \<Rightarrow> int \<Rightarrow> 'a list \<Rightarrow> 'a list" where
  "sql_limit_offset n k xs =
     (let ys = (if int (length xs) \<le> k then [] else drop (nat k) xs)
      in if n < 0 \<or> int (length ys) \<le> n then ys else take (nat n) ys)"

text \<open>\<open>ORDER BY RANDOM()\<close> draws one number per row and sorts the rows on it. The
  draws come from the environment: \<open>rnd i\<close> is the number drawn for the \<open>i\<close>-th row.\<close>

definition order_by_random :: "(nat \<Rightarrow> int) \<Rightarrow> 'a list \<Rightarrow> 'a list" where
  "order_by_random rnd xs = map snd (sort_key fst (zip (map rnd [0..<length xs]) xs))"

text \<open>Running a statement on a table: the engine's fault first, then the missing table.\<close>

definition query_books :: "database \<Rightarrow> thrown + book_row list" where
  "query_books db =
     (case fault db of
        Some m \<Rightarrow> Inl (JsError m)
      | None \<Rightarrow>
          (case books_table db of
             None \<Rightarrow> Inl (JsError ''no such table: books'')
           | Some rows \<Rightarrow> Inr rows))"

definition query_chapters :: "database \<Rightarrow> thrown + chapter_row list" where
  "query_chapters db =
     (case fault db of
        Some m \<Rightarrow> Inl (JsError m)
      | None \<Rightarrow>
          (case chapters_table db of
             None \<Rightarrow> Inl (JsError ''no such table: chapters'')
           | Some rows \<Rightarrow> Inr rows))"

section \<open>Content store: getAllBooks\<close>

record params =
  p_page :: "int option"
  p_limit :: "int option"
  p_search :: "string option"
  p_title :: "string option"
  p_author :: "string option"
  p_random :: "bool option"
  p_ids :: "int list option"

record pagination =
  total :: int
  page :: int
  limit :: int
  totalPages :: int

record books_response =
  data :: "Book list"
  pagination :: pagination

definition effective_page :: "params \<Rightarrow> int" where
  "effective_page ps = num_or (p_page ps) 1"

definition effective_limit :: "params \<Rightarrow> int" where
  "effective_limit ps = num_or (p_limit ps) 50"

text \<open>\<open>(page - 1) * limit\<close>, each operation on doubles.\<close>

definition query_offset :: "params \<Rightarrow> int" where
  "query_offset ps = round_double (round_double (effective_page ps - 1) * effective_limit ps)"

text \<open>The \<open>conditions\<close> array, one predicate on a row per pushed SQL condition, in the
  order the source pushes them.\<close>

definition conditions :: "params \<Rightarrow> (book_row \<Rightarrow> bool) list" where
  "conditions ps =
     (if truthy_str (p_search ps)
      then [\<lambda>r. sql_like (''%'' @ the (p_search ps) @ ''%'') (row_title r)
               \<or> sql_like (''%'' @ the (p_search ps) @ ''%'') (row_author r)]
      else [])
     @ (if truthy_str (p_title ps)
        then [\<lambda>r. sql_like (''%'' @ the (p_title ps) @ ''%'') (row_title r)]
        else [])
     @ (if truthy_str (p_author ps)
        then [\<lambda>r. sql_like (''%'' @ the (p_author ps) @ ''%'') (row_author r)]
        else [])
     @ (case p_ids ps of
          None \<Rightarrow> []
        | Some xs \<Rightarrow> if length xs > 0 then [\<lambda>r. row_book_id r \<in> set xs] else [])"

text \<open>The \<open>WHERE\<close> clause: no clause when there is no condition, their conjunction
  otherwise.\<close>

definition whereClause :: "params \<Rightarrow> book_row \<Rightarrow> bool" where
  "whereClause ps r = list_all (\<lambda>c. c r) (conditions ps)"

definition resolve_cover :: "book_row \<Rightarrow> string" where
  "resolve_cover row =
     (case row_cover_image row of
        None \<Rightarrow> ''https://picsum.photos/seed/'' @ show_int (row_book_id row) @ ''/400/600''
      | Some img \<Rightarrow>
          if img = [] then ''https://picsum.photos/seed/'' @ show_int (row_book_id row) @ ''/400/600''
          else if startsWith img ''http'' \<or> startsWith img ''data:'' then img
          else ''data:image/jpeg;base64,'' @ img)"

definition to_book :: "book_row \<Rightarrow> Book" where
  "to_book row =
     \<lparr>book_id = row_book_id row, title = row_title row, author = row_author row,
      cover_url = resolve_cover row\<rparr>"

text \<open>The count statement runs first, then the data statement with \<open>limit\<close> and \<open>offset\<close>
  bound last. With fewer than \<open>2^53\<close> rows, \<open>Math.ceil(total / limit)\<close> on doubles is the
  exact ceiling of the quotient.\<close>

definition getAllBooks :: "(nat \<Rightarrow> int) \<Rightarrow> database \<Rightarrow> params \<Rightarrow> thrown + books_response" where
  "getAllBooks rnd db ps =
     (case query_books db of
        Inl e \<Rightarrow> Inl e
      | Inr tbl \<Rightarrow>
          (let matching = filter (whereClause ps) tbl;
               total = int (length matching);
               ordered = (if p_random ps = Some True then order_by_random rnd matching
                          else matching);
               rows = sql_limit_offset (effective_limit ps) (query_offset ps) ordered
           in if \<not> (int64 (effective_limit ps) \<and> int64 (query_offset ps))
              then Inl (JsError ''datatype mismatch'')
              else
                Inr \<lparr>data = map to_book rows,
                     pagination =
                       \<lparr>total = total, page = effective_page ps, limit = effective_limit ps,
                        totalPages =
                          \<lceil>real_of_int total / real_of_int (effective_limit ps)\<rceil>\<rparr>\<rparr>))"

section \<open>Content store: getChaptersByBookId and getAllAuthors\<close>

definition to_chapter :: "chapter_row \<Rightarrow> Chapter" where
  "to_chapter row =
     \<lparr>chapter_id = row_chapter_id row,
      chapter_book_id = row_chapter_book_id row,
      chapter_number = row_chapter_number row,
      chapter_title =
        (if truthy_str (row_chapter_title row) then the (row_chapter_title row)
         else ''Chapter '' @ show_int (row_chapter_number row)),
      body_text = row_body_text row\<rparr>"

text \<open>\<open>WHERE book_id = ? ORDER BY chapter_number ASC\<close>. SQL leaves the order of rows
  with equal keys open; the model keeps them in storage order (a stable sort).\<close>

definition getChaptersByBookId :: "database \<Rightarrow> int \<Rightarrow> thrown + Chapter list" where
  "getChaptersByBookId db bookId =
     (case query_chapters db of
        Inl e \<Rightarrow> Inl e
      | Inr tbl \<Rightarrow>
          Inr (map to_chapter
                 (sort_key row_chapter_number
                    (filter (\<lambda>r. row_chapter_book_id r = bookId) tbl))))"

text \<open>\<open>GROUP BY author ORDER BY book_count DESC\<close>. SQL leaves the order of authors with
  equal counts open; the model takes the groups in ascending order of the author's
  bytes, as the grouping produces them, and sorts them stably on the count.\<close>

definition getAllAuthors :: "database \<Rightarrow> thrown + Author list" where
  "getAllAuthors db =
     (case query_books db of
        Inl e \<Rightarrow> Inl e
      | Inr tbl \<Rightarrow>
          Inr (sort_key (\<lambda>a. - book_count a)
                 (map (\<lambda>n. \<lparr>author_name = n,
                             book_count = int (count_list (map row_author tbl) n)\<rparr>)
                    (sort (remdups (map row_author tbl))))))"

section \<open>Application state (App)\<close>

datatype ViewState = V_home | V_authors | V_author_detail | V_all_books | V_favorites | V_bookmarks

datatype LibrarySubView = SV_books | SV_authors

datatype LoadingState = LS_idle | LS_loading | LS_success | LS_error

datatype Theme = T_light | T_sepia | T_dark | T_navy

datatype FontFamily = F_siliguri | F_noto | F_tiro

record ReaderSettings =
  fontSize :: int
  theme :: Theme
  lineHeight :: real
  fontFamily :: FontFamily

text \<open>What reading a key of the key-value storage gives: nothing (the key was never
  written), the value \<open>JSON.parse\<close> yields for the stored text, or an exception
  (\<open>getItem\<close> rejects, or \<open>JSON.parse\<close> throws on the stored text).\<close>

datatype 'a item = Absent | Stored 'a | Unreadable thrown

text \<open>The three keys. The bookmarks object \<open>Record<number, number>\<close> is an association
  list from book id to chapter index, its keys distinct.\<close>

record storage =
  stored_settings :: "ReaderSettings item"
  stored_favorites :: "int list item"
  stored_bookmarks :: "(int \<times> int) list item"

text \<open>The calls made to the store and to \<open>runFullInit\<close>, in order. The source has no
  such field: it is kept so that a theorem can count calls. Nor has it \<open>favorites_ref\<close>
  and \<open>bookmarks_ref\<close>: they stand for the identity of the array and of the object that
  \<open>favorites\<close> and \<open>bookmarks\<close> hold, which is what an effect compares; a setter called
  with a newly built value changes the identity even when the contents are the same.\<close>

datatype call =
    Call_getAllBooks params
  | Call_getChaptersByBookId int
  | Call_getAllAuthors
  | Call_runFullInit

record app =
  dbReady :: bool
  dbMissing :: bool
  books :: "Book list"
  authors :: "Author list"
  selectedBook :: "Book option"
  currentChapterIdx :: int
  loadingState :: LoadingState
  loadingChapters :: bool
  chapters :: "Chapter list"
  currentView :: ViewState
  selectedAuthor :: "string option"
  searchTerm :: string
  currentPage :: int
  app_totalPages :: int
  librarySubView :: LibrarySubView
  settings :: ReaderSettings
  favorites :: "int list"
  favorites_ref :: nat
  bookmarks :: "(int \<times> int) list"
  bookmarks_ref :: nat
  calls :: "call list"

definition initial_app :: app where
  "initial_app =
     \<lparr>dbReady = False, dbMissing = False, books = [], authors = [], selectedBook = None,
      currentChapterIdx = 0, loadingState = LS_loading, loadingChapters = False,
      chapters = [], currentView = V_home, selectedAuthor = None, searchTerm = [],
      currentPage = 1, app_totalPages = 1, librarySubView = SV_books,
      settings = \<lparr>fontSize = 18, theme = T_light, lineHeight = 16 / 10,
                  fontFamily = F_siliguri\<rparr>,
      favorites = [], favorites_ref = 0, bookmarks = [], bookmarks_ref = 0, calls = []\<rparr>"

subsection \<open>runFullInit\<close>

text \<open>\<open>setFavorites\<close> and \<open>setBookmarks\<close> called with a newly built value.\<close>

definition setFavorites :: "int list \<Rightarrow> app \<Rightarrow> app" where
  "setFavorites v s = s\<lparr>favorites := v, favorites_ref := Suc (favorites_ref s)\<rparr>"

definition setBookmarks :: "(int \<times> int) list \<Rightarrow> app \<Rightarrow> app" where
  "setBookmarks v s = s\<lparr>bookmarks := v, bookmarks_ref := Suc (bookmarks_ref s)\<rparr>"

text \<open>The statements run in the order of the source; an exception (from reading a key,
  or from \<open>getAllAuthors\<close>) leaves \<open>runFullInit\<close> with the setters before it already
  applied.\<close>

definition runFullInit :: "database \<Rightarrow> storage \<Rightarrow> app \<Rightarrow> (thrown + unit) \<times> app" where
  "runFullInit db sto st =
     (let s1 = st\<lparr>loadingState := LS_loading, calls := calls st @ [Call_runFullInit]\<rparr>
      in case stored_settings sto of
           Unreadable e \<Rightarrow> (Inl e, s1)
         | savedSettings \<Rightarrow>
             (let s2 = (case savedSettings of Stored v \<Rightarrow> s1\<lparr>settings := v\<rparr> | _ \<Rightarrow> s1)
              in case stored_favorites sto of
                   Unreadable e \<Rightarrow> (Inl e, s2)
                 | savedFavs \<Rightarrow>
                     (let s3 = (case savedFavs of Stored v \<Rightarrow> setFavorites v s2 | _ \<Rightarrow> s2)
                      in case stored_bookmarks sto of
                           Unreadable e \<Rightarrow> (Inl e, s3)
                         | savedMarks \<Rightarrow>
                             (let s4 = (case savedMarks of
                                          Stored v \<Rightarrow> setBookmarks v s3
                                        | _ \<Rightarrow> s3);
                                  s5 = s4\<lparr>calls := calls s4 @ [Call_getAllAuthors]\<rparr>
                              in case getAllAuthors db of
                                   Inl e \<Rightarrow> (Inl e, s5)
                                 | Inr authorList \<Rightarrow>
                                     (Inr (), s5\<lparr>authors := authorList, dbReady := True,
                                                 dbMissing := False\<rparr>)))))"

subsection \<open>The fetch-books effect\<close>

text \<open>\<open>Object.keys\<close>: the keys that are array indices in ascending order, then the other
  keys in the order of their insertion.\<close>

definition object_keys :: "(int \<times> 'v) list \<Rightarrow> int list" where
  "object_keys obj =
     sort (filter (\<lambda>k. 0 \<le> k \<and> k < 4294967295) (map fst obj))
     @ filter (\<lambda>k. \<not> (0 \<le> k \<and> k < 4294967295)) (map fst obj)"

definition fetch_params :: "app \<Rightarrow> params" where
  "fetch_params st =
     \<lparr>p_page = Some (currentPage st),
      p_limit = Some 20,
      p_search = Some (searchTerm st),
      p_title = None,
      p_author = (if currentView st = V_author_detail \<and> truthy_str (selectedAuthor st)
                  then selectedAuthor st else None),
      p_random = (if currentView st = V_home then Some True else None),
      p_ids = (if currentView st = V_favorites then Some (favorites st)
               else if currentView st = V_bookmarks then Some (object_keys (bookmarks st))
               else None)\<rparr>"

definition connection_issue :: "thrown \<Rightarrow> bool" where
  "connection_issue err =
     (case err of
        JsError m \<Rightarrow> str_includes m ''no such table'' \<or> str_includes m ''database is closed''
      | NonError \<Rightarrow> False)"

text \<open>The body of the timer callback. \<open>db\<close> is the database file as the query finds it,
  \<open>db'\<close> as the re-initialisation finds it afterwards (the file belongs to the
  environment and may have changed in between).\<close>

definition fetchBooks :: "(nat \<Rightarrow> int) \<Rightarrow> database \<Rightarrow> database \<Rightarrow> storage \<Rightarrow> app \<Rightarrow> (thrown + unit) \<times> app" where
  "fetchBooks rnd db db' sto st =
     (if (currentView st = V_favorites \<and> length (favorites st) = 0) \<or>
         (currentView st = V_bookmarks \<and> length (object_keys (bookmarks st)) = 0)
      then (Inr (), st\<lparr>books := [], app_totalPages := 1, loadingState := LS_success\<rparr>)
      else
        (let s1 = st\<lparr>calls := calls st @ [Call_getAllBooks (fetch_params st)]\<rparr>
         in case getAllBooks rnd db (fetch_params st) of
              Inr response \<Rightarrow>
                (Inr (), s1\<lparr>books := data response,
                            app_totalPages := totalPages (pagination response),
                            loadingState := LS_success\<rparr>)
            | Inl err \<Rightarrow>
                if connection_issue err
                then (case runFullInit db' sto s1 of
                        (Inl e, s2) \<Rightarrow> (Inl e, s2)
                      | (Inr u, s2) \<Rightarrow> (Inr (), s2\<lparr>loadingState := LS_error\<rparr>))
                else (Inr (), s1\<lparr>loadingState := LS_error\<rparr>)))"

text \<open>\<open>fetchBooks\<close> is one run of the callback. The effect runs again after every render in
  which one of its dependencies differs from the one of its last run: \<open>fetch_deps\<close> is
  the dependency array, with the identities of \<open>favorites\<close> and \<open>bookmarks\<close>. So the
  setters of a \<open>runFullInit\<close> that found stored favorites or bookmarks schedule the
  callback again, with the state they leave.\<close>

definition fetch_deps ::
  "app \<Rightarrow> int \<times> string \<times> ViewState \<times> string option \<times> bool \<times> nat \<times> nat" where
  "fetch_deps st =
     (currentPage st, searchTerm st, currentView st, selectedAuthor st, dbReady st,
      favorites_ref st, bookmarks_ref st)"

text \<open>The effect itself: nothing before the database is ready, otherwise \<open>loading\<close> and
  then the callback (the 500 ms delay is not modelled).\<close>

definition fetchBooks_effect :: "(nat \<Rightarrow> int) \<Rightarrow> database \<Rightarrow> database \<Rightarrow> storage \<Rightarrow> app \<Rightarrow> (thrown + unit) \<times> app" where
  "fetchBooks_effect rnd db db' sto st =
     (if \<not> dbReady st then (Inr (), st)
      else fetchBooks rnd db db' sto (st\<lparr>loadingState := LS_loading\<rparr>))"

subsection \<open>Selecting a book, favorites and bookmarks\<close>

definition handleBookSelect :: "database \<Rightarrow> Book \<Rightarrow> app \<Rightarrow> app" where
  "handleBookSelect db book st =
     (let s1 = st\<lparr>selectedBook := Some book, loadingChapters := True,
                  calls := calls st @ [Call_getChaptersByBookId (book_id book)]\<rparr>
      in case getChaptersByBookId db (book_id book) of
           Inr bookChapters \<Rightarrow>
             s1\<lparr>chapters := bookChapters,
                currentChapterIdx :=
                  (case map_of (bookmarks st) (book_id book) of
                     Some savedChapter \<Rightarrow> savedChapter
                   | None \<Rightarrow> 0),
                loadingChapters := False\<rparr>
         | Inl err \<Rightarrow> s1\<lparr>loadingChapters := False\<rparr>)"

text \<open>The updater functions handed to \<open>setFavorites\<close> and \<open>setBookmarks\<close>.\<close>

definition toggleFavorite :: "int \<Rightarrow> int list \<Rightarrow> int list" where
  "toggleFavorite bookId prev =
     (if bookId \<in> set prev then filter (\<lambda>i. i \<noteq> bookId) prev else prev @ [bookId])"

definition toggleBookmark :: "int \<Rightarrow> int \<Rightarrow> (int \<times> int) list \<Rightarrow> (int \<times> int) list" where
  "toggleBookmark bookId chapterIndex prev =
     (if map_of prev bookId = Some chapterIndex then AList.delete bookId prev
      else AList.update bookId chapterIndex prev)"

section \<open>Reader\<close>

text \<open>\<open>xs[i]\<close> in JavaScript: \<open>undefined\<close> outside the array.\<close>

definition js_index :: "'a list \<Rightarrow> int \<Rightarrow> 'a option" where
  "js_index xs i = (if 0 \<le> i \<and> i < int (length xs) then Some (xs ! nat i) else None)"

record ReaderProps =
  rp_book :: Book
  rp_chapters :: "Chapter list"
  currentChapterIndex :: int
  isLoading :: "bool option"
  rp_settings :: ReaderSettings
  isBookmarked :: bool

text \<open>What the component returns: the loading screen, the fallback with the book's
  title, or the chapter screen (chapter, heading, \<open>hasPrev\<close>, \<open>hasNext\<close>, the bookmark
  button's state).\<close>

datatype view =
    LoadingView
  | NoContentView string
  | ChapterView Chapter string bool bool bool

definition Reader :: "ReaderProps \<Rightarrow> view" where
  "Reader p =
     (let chapter = js_index (rp_chapters p) (currentChapterIndex p);
          hasPrev = currentChapterIndex p > 0;
          hasNext = currentChapterIndex p < int (length (rp_chapters p)) - 1
      in if isLoading p = Some True then LoadingView
         else case chapter of
                None \<Rightarrow> NoContentView (title (rp_book p))
              | Some ch \<Rightarrow>
                  ChapterView ch
                    (if chapter_title ch \<noteq> [] then chapter_title ch
                     else ''Chapter '' @ show_int (chapter_number ch))
                    hasPrev hasNext (isBookmarked p))"

text \<open>The props \<open>App\<close> passes to the Reader when a book is selected.\<close>

definition reader_props :: "app \<Rightarrow> Book \<Rightarrow> ReaderProps" where
  "reader_props st b =
     \<lparr>rp_book = b, rp_chapters = chapters st, currentChapterIndex = currentChapterIdx st,
      isLoading = Some (loadingChapters st), rp_settings = settings st,
      isBookmarked = (map_of (bookmarks st) (book_id b) = Some (currentChapterIdx st))\<rparr>"

section \<open>Example data\<close>

definition zero_draws :: "nat \<Rightarrow> int" where
  "zero_draws i = 0"

definition no_filter :: params where
  "no_filter =
     \<lparr>p_page = None, p_limit = None, p_search = None, p_title = None, p_author = None,
      p_random = None, p_ids = None\<rparr>"

definition one_book_db :: database where
  "one_book_db =
     \<lparr>fault = None,
      books_table = Some
        [\<lparr>row_book_id = 1, row_title = ''Gora'', row_author = ''Tagore'',
          row_cover_image = None\<rparr>],
      chapters_table = Some []\<rparr>"

definition three_book_db :: database where
  "three_book_db =
     \<lparr>fault = None,
      books_table = Some
        [\<lparr>row_book_id = 1, row_title = ''Gora'', row_author = ''Tagore'',
          row_cover_image = None\<rparr>,
         \<lparr>row_book_id = 2, row_title = ''Devdas'', row_author = ''Sarat'',
          row_cover_image = Some ''http://x/2.png''\<rparr>,
         \<lparr>row_book_id = 3, row_title = ''Pather Panchali'', row_author = ''Bibhutibhushan'',
          row_cover_image = Some ''QUJD''\<rparr>],
      chapters_table = Some []\<rparr>"

definition no_storage :: storage where
  "no_storage =
     \<lparr>stored_settings = Absent, stored_favorites = Absent, stored_bookmarks = Absent\<rparr>"

text \<open>The storage as the persist effect leaves it for a user with no favorite and no
  bookmark.\<close>

definition saved_storage :: storage where
  "saved_storage =
     \<lparr>stored_settings = Stored (settings initial_app), stored_favorites = Stored [],
      stored_bookmarks = Stored []\<rparr>"

definition favorites_view :: app where
  "favorites_view = initial_app\<lparr>dbReady := True, currentView := V_favorites\<rparr>"

definition closed_db :: database where
  "closed_db =
     \<lparr>fault = Some ''database is closed'', books_table = Some [], chapters_table = Some []\<rparr>"

definition empty_db :: database where
  "empty_db = \<lparr>fault = None, books_table = Some [], chapters_table = Some []\<rparr>"

definition chapters_db :: database where
  "chapters_db =
     \<lparr>fault = None,
      books_table = Some
        [\<lparr>row_book_id = 1, row_title = ''Gora'', row_author = ''Tagore'',
          row_cover_image = None\<rparr>,
         \<lparr>row_book_id = 2, row_title = ''Devdas'', row_author = ''Sarat'',
          row_cover_image = Some ''http://x/2.png''\<rparr>],
      chapters_table = Some
        [\<lparr>row_chapter_id = 11, row_chapter_book_id = 1, row_chapter_number = 2,
          row_chapter_title = None, row_body_text = ''b''\<rparr>,
         \<lparr>row_chapter_id = 12, row_chapter_book_id = 1, row_chapter_number = 1,
          row_chapter_title = Some ''One'', row_body_text = ''a''\<rparr>,
         \<lparr>row_chapter_id = 13, row_chapter_book_id = 1, row_chapter_number = 1,
          row_chapter_title = Some ''Uno'', row_body_text = ''c''\<rparr>,
         \<lparr>row_chapter_id = 21, row_chapter_book_id = 2, row_chapter_number = 3,
          row_chapter_title = Some ''Three'', row_body_text = ''d''\<rparr>,
         \<lparr>row_chapter_id = 22, row_chapter_book_id = 2, row_chapter_number = 1,
          row_chapter_title = Some ''First'', row_body_text = ''e''\<rparr>]\<rparr>"

definition gora :: Book where
  "gora =
     \<lparr>book_id = 1, title = ''Gora'', author = ''Tagore'',
      cover_url = ''https://picsum.photos/seed/1/400/600''\<rparr>"

definition devdas :: Book where
  "devdas =
     \<lparr>book_id = 2, title = ''Devdas'', author = ''Sarat'', cover_url = ''http://x/2.png''\<rparr>"

definition first_chapter :: Chapter where
  "first_chapter =
     \<lparr>chapter_id = 22, chapter_book_id = 2, chapter_number = 1, chapter_title = ''First'',
      body_text = ''e''\<rparr>"

definition third_chapter :: Chapter where
  "third_chapter =
     \<lparr>chapter_id = 21, chapter_book_id = 2, chapter_number = 3, chapter_title = ''Three'',
      body_text = ''d''\<rparr>"

definition library_view :: app where
  "library_view = initial_app\<lparr>dbReady := True, currentView := V_all_books\<rparr>"

text \<open>A reader was closed at chapter index 7; no bookmark is saved.\<close>

definition reading_elsewhere :: app where
  "reading_elsewhere = initial_app\<lparr>dbReady := True, currentChapterIdx := 7\<rparr>"

definition bookmarked_devdas :: app where
  "bookmarked_devdas = initial_app\<lparr>dbReady := True, bookmarks := [(2, 1)]\<rparr>"

definition loading_props :: ReaderProps where
  "loading_props =
     \<lparr>rp_book = gora, rp_chapters = [], currentChapterIndex = 0, isLoading = Some True,
      rp_settings = settings initial_app, isBookmarked = False\<rparr>"

definition one_chapter_props :: ReaderProps where
  "one_chapter_props =
     \<lparr>rp_book = devdas, rp_chapters = [first_chapter], currentChapterIndex = 0,
      isLoading = Some False, rp_settings = settings initial_app, isBookmarked = False\<rparr>"

text \<open>The state one run of the callback leaves when the query finds the database closed
  and the re-initialisation finds it open; and when both find it closed.\<close>

definition after_reinit :: app where
  "after_reinit = snd (fetchBooks zero_draws closed_db one_book_db saved_storage library_view)"

definition after_failed_reinit :: app where
  "after_failed_reinit =
     snd (fetchBooks zero_draws closed_db closed_db saved_storage library_view)"

section \<open>Properties of getAllBooks\<close>

lemma sql_limit_offset_eq:
  "sql_limit_offset n k xs =
     (if n < 0 then drop (nat k) xs else take (nat n) (drop (nat k) xs))"
  by (auto simp: sql_limit_offset_def Let_def)

lemma round_double_exact: "\<bar>x\<bar> \<le> 9007199254740992 \<Longrightarrow> round_double x = x"
  by (simp add: round_double_def)

text \<open>\<open>Math.ceil(t / n)\<close> is the least number of pages of size \<open>n\<close> that hold \<open>t\<close> rows.\<close>

lemma ceiling_pages:
  assumes "0 < (n::int)"
  shows "t \<le> \<lceil>real_of_int t / real_of_int n\<rceil> * n \<and>
         (\<lceil>real_of_int t / real_of_int n\<rceil> - 1) * n < t"
proof -
  let ?c = "\<lceil>real_of_int t / real_of_int n\<rceil>"
  have n: "0 < real_of_int n" using assms by simp
  have "real_of_int t / real_of_int n \<le> of_int ?c" by (rule le_of_int_ceiling)
  then have "real_of_int t \<le> of_int ?c * of_int n" using n by (simp only: pos_divide_le_eq)
  then have "real_of_int t \<le> of_int (?c * n)" by simp
  then have 1: "t \<le> ?c * n" by (simp only: of_int_le_iff)
  have "of_int ?c - 1 < real_of_int t / of_int n" using ceiling_correct by blast
  then have "(of_int ?c - 1) * of_int n < real_of_int t" using n by (simp only: pos_less_divide_eq)
  then have "of_int ((?c - 1) * n) < real_of_int t" by simp
  then have 2: "(?c - 1) * n < t" by (simp only: of_int_less_iff)
  from 1 2 show ?thesis by simp
qed

lemma whereClause_empty_ids:
  "whereClause (ps\<lparr>p_ids := Some []\<rparr>) = whereClause (ps\<lparr>p_ids := None\<rparr>)"
  by (rule ext) (simp add: whereClause_def conditions_def)

lemma ids_unused:
  "effective_limit (ps\<lparr>p_ids := x\<rparr>) = effective_limit ps"
  "effective_page (ps\<lparr>p_ids := x\<rparr>) = effective_page ps"
  "query_offset (ps\<lparr>p_ids := x\<rparr>) = query_offset ps"
  "p_random (ps\<lparr>p_ids := x\<rparr>) = p_random ps"
  by (simp_all add: effective_limit_def effective_page_def query_offset_def)

text \<open>
  C1, as stated, fails: with \<open>ids\<close> present and empty, \<open>getAllBooks\<close> on a library of one
  book returns that book and \<open>total = 1\<close>, not the empty page.
\<close>

theorem getAllBooks_empty_ids_counterexample:
  "getAllBooks zero_draws one_book_db (no_filter\<lparr>p_ids := Some []\<rparr>) =
     Inr \<lparr>data = [\<lparr>book_id = 1, title = ''Gora'', author = ''Tagore'',
                   cover_url = ''https://picsum.photos/seed/1/400/600''\<rparr>],
          pagination = \<lparr>total = 1, page = 1, limit = 50, totalPages = 1\<rparr>\<rparr>"
  by code_simp

text \<open>
  C1, amended: \<open>getAllBooks\<close> guards the id condition with \<open>ids.length > 0\<close>, so an empty
  \<open>ids\<close> list imposes no constraint: the result is the one for \<open>ids\<close> absent, whatever
  the other filters are. The empty page comes from the caller: in the favorites view
  with no favorite, and in the bookmarks view with no bookmark, the fetch-books effect
  sets the books to the empty list, the page count to 1 and the state to \<open>success\<close>
  without calling \<open>getAllBooks\<close>.
\<close>

theorem getAllBooks_empty_ids:
  "getAllBooks rnd db (ps\<lparr>p_ids := Some []\<rparr>) = getAllBooks rnd db (ps\<lparr>p_ids := None\<rparr>) \<and>
   ((currentView st = V_favorites \<and> favorites st = []) \<or>
    (currentView st = V_bookmarks \<and> bookmarks st = []) \<longrightarrow>
    fetchBooks rnd db db' sto st =
      (Inr (), st\<lparr>books := [], app_totalPages := 1, loadingState := LS_success\<rparr>))"
proof
  show "getAllBooks rnd db (ps\<lparr>p_ids := Some []\<rparr>) = getAllBooks rnd db (ps\<lparr>p_ids := None\<rparr>)"
    unfolding getAllBooks_def whereClause_empty_ids ids_unused by (rule refl)
next
  show "(currentView st = V_favorites \<and> favorites st = []) \<or>
    (currentView st = V_bookmarks \<and> bookmarks st = []) \<longrightarrow>
    fetchBooks rnd db db' sto st =
      (Inr (), st\<lparr>books := [], app_totalPages := 1, loadingState := LS_success\<rparr>)"
    by (auto simp: fetchBooks_def object_keys_def)
qed

text \<open>The favorites view with no favorite: an empty successful result, and no call.\<close>

theorem getAllBooks_empty_ids_witness:
  "currentView favorites_view = V_favorites \<and> favorites favorites_view = [] \<and>
   fetchBooks zero_draws one_book_db one_book_db no_storage favorites_view =
     (Inr (), favorites_view\<lparr>books := [], app_totalPages := 1, loadingState := LS_success\<rparr>) \<and>
   calls (snd (fetchBooks zero_draws one_book_db one_book_db no_storage favorites_view)) = []"
  using getAllBooks_empty_ids [of zero_draws one_book_db no_filter favorites_view one_book_db no_storage]
  by (simp add: favorites_view_def initial_app_def)

text \<open>
  C4, as stated, fails at 0: \<open>page = 0\<close> and \<open>limit = 0\<close> are falsy and replaced by the
  defaults 1 and 50, so a page size of 0 returns one item (more than 0), a limit of 50
  and one page.
\<close>

theorem getAllBooks_pagination_counterexample:
  "getAllBooks zero_draws one_book_db (no_filter\<lparr>p_page := Some 0, p_limit := Some 0\<rparr>) =
     Inr \<lparr>data = [\<lparr>book_id = 1, title = ''Gora'', author = ''Tagore'',
                   cover_url = ''https://picsum.photos/seed/1/400/600''\<rparr>],
          pagination = \<lparr>total = 1, page = 1, limit = 50, totalPages = 1\<rparr>\<rparr>"
  by code_simp

text \<open>
  C4, amended: for all non-negative integers \<open>page\<close> and \<open>limit\<close> supplied to
  \<open>getAllBooks\<close>, neither above \<open>2^53\<close> and with \<open>(page - 1) * limit\<close> not above \<open>2^53\<close>
  (the range in which the arithmetic on doubles is exact), with a supplied 0 standing
  for the default (page 1, limit 50), and with the books table readable: the call
  returns, its items are the matching rows in query order from offset
  \<open>(page - 1) * limit\<close> on, at most \<open>limit\<close> of them, \<open>totalPages = ceil(total / limit)\<close>
  (the least number of pages that hold \<open>total\<close> items), and the query offset is
  \<open>(page - 1) * limit\<close>. For positive \<open>page\<close> and \<open>limit\<close> in that range this is the claim
  as written.
\<close>

theorem getAllBooks_pagination:
  assumes pg: "p_page ps = Some pg" and lm: "p_limit ps = Some lm"
    and nonneg: "0 \<le> pg" "0 \<le> lm"
    and P: "P = (if pg = 0 then 1 else pg)" and L: "L = (if lm = 0 then 50 else lm)"
    and exact: "pg \<le> 9007199254740992" "lm \<le> 9007199254740992"
      "(P - 1) * L \<le> 9007199254740992"
    and tbl: "query_books db = Inr tbl"
    and T: "T = int (length (filter (whereClause ps) tbl))"
    and ordered: "ordered =
      (if p_random ps = Some True then order_by_random rnd (filter (whereClause ps) tbl)
       else filter (whereClause ps) tbl)"
  shows "getAllBooks rnd db ps =
           Inr \<lparr>data = map to_book (take (nat L) (drop (nat ((P - 1) * L)) ordered)),
                pagination =
                  \<lparr>total = T, page = P, limit = L,
                   totalPages = \<lceil>real_of_int T / real_of_int L\<rceil>\<rparr>\<rparr> \<and>
         int (length (map to_book (take (nat L) (drop (nat ((P - 1) * L)) ordered)))) \<le> L \<and>
         T \<le> \<lceil>real_of_int T / real_of_int L\<rceil> * L \<and>
         (\<lceil>real_of_int T / real_of_int L\<rceil> - 1) * L < T \<and>
         query_offset ps = (P - 1) * L"
proof -
  have Lpos: "0 < L" and Lmax: "L \<le> 9007199254740992"
    using nonneg(2) exact(2) by (simp_all add: L)
  have Ppos: "0 < P" and Pmax: "P \<le> 9007199254740992"
    using nonneg(1) exact(1) by (simp_all add: P)
  have eL: "effective_limit ps = L" using lm by (simp add: effective_limit_def num_or_def L)
  have eP: "effective_page ps = P" using pg by (simp add: effective_page_def num_or_def P)
  have off0: "0 \<le> (P - 1) * L" using Ppos Lpos by simp
  have r1: "round_double (P - 1) = P - 1"
    using Ppos Pmax by (intro round_double_exact) simp
  have r2: "round_double ((P - 1) * L) = (P - 1) * L"
    using off0 exact(3) by (intro round_double_exact) simp
  have off: "query_offset ps = (P - 1) * L"
    by (simp only: query_offset_def eL eP r1 r2)
  have b: "int64 L" "int64 ((P - 1) * L)"
    using Lpos Lmax off0 exact(3) by (simp_all add: int64_def)
  have w: "sql_limit_offset L ((P - 1) * L) xs = take (nat L) (drop (nat ((P - 1) * L)) xs)"
    for xs :: "book_row list"
    using Lpos by (simp add: sql_limit_offset_eq)
  have 1: "getAllBooks rnd db ps =
           Inr \<lparr>data = map to_book (take (nat L) (drop (nat ((P - 1) * L)) ordered)),
                pagination =
                  \<lparr>total = T, page = P, limit = L,
                   totalPages = \<lceil>real_of_int T / real_of_int L\<rceil>\<rparr>\<rparr>"
    unfolding getAllBooks_def tbl by (simp add: Let_def eL eP off b w T ordered)
  have 2: "int (length (map to_book (take (nat L) (drop (nat ((P - 1) * L)) ordered)))) \<le> L"
    using Lpos by simp
  from 1 2 ceiling_pages [OF Lpos, of T] off show ?thesis by blast
qed

text \<open>Three books, page 2 of size 2: the third book alone, two pages, offset 2.\<close>

theorem getAllBooks_pagination_witness:
  "(0::int) \<le> 2 \<and> (2::int) \<le> 9007199254740992 \<and>
   query_books three_book_db = Inr (the (books_table three_book_db)) \<and>
   getAllBooks zero_draws three_book_db (no_filter\<lparr>p_page := Some 2, p_limit := Some 2\<rparr>) =
     Inr \<lparr>data = [\<lparr>book_id = 3, title = ''Pather Panchali'', author = ''Bibhutibhushan'',
                   cover_url = ''data:image/jpeg;base64,QUJD''\<rparr>],
          pagination = \<lparr>total = 3, page = 2, limit = 2, totalPages = 2\<rparr>\<rparr> \<and>
   query_offset (no_filter\<lparr>p_page := Some 2, p_limit := Some 2\<rparr>) = 2"
proof -
  have q: "query_books three_book_db = Inr (the (books_table three_book_db))"
    by (simp add: query_books_def three_book_db_def)
  have h: "getAllBooks zero_draws three_book_db (no_filter\<lparr>p_page := Some 2, p_limit := Some 2\<rparr>) =
     Inr \<lparr>data = [\<lparr>book_id = 3, title = ''Pather Panchali'', author = ''Bibhutibhushan'',
                   cover_url = ''data:image/jpeg;base64,QUJD''\<rparr>],
          pagination = \<lparr>total = 3, page = 2, limit = 2, totalPages = 2\<rparr>\<rparr>"
    by code_simp
  show ?thesis
    using q h
      getAllBooks_pagination [where ps = "no_filter\<lparr>p_page := Some 2, p_limit := Some 2\<rparr>"
        and pg = 2 and lm = 2 and P = 2 and L = 2 and db = three_book_db
        and tbl = "the (books_table three_book_db)" and rnd = zero_draws, OF _ _ _ _ _ _ _ _ _ q refl refl]
    by (simp add: no_filter_def)
qed

section \<open>Properties of getChaptersByBookId\<close>

lemma getChaptersByBookId_Inr:
  assumes "getChaptersByBookId db b = Inr cs"
  obtains tbl where "query_chapters db = Inr tbl"
    and "cs = map to_chapter
                (sort_key row_chapter_number (filter (\<lambda>r. row_chapter_book_id r = b) tbl))"
  using assms by (cases "query_chapters db") (auto simp: getChaptersByBookId_def)

lemma chapter_number_to_chapter:
  "map chapter_number (map to_chapter rows) = map row_chapter_number rows"
  by (simp add: to_chapter_def)

text \<open>
  C3, as stated, fails: in a database with no book at all, the chapters of book 7 are the
  empty list, returned as a result and not as an error.
\<close>

theorem getChaptersByBookId_missing_book_counterexample:
  "books_table empty_db = Some [] \<and> getChaptersByBookId empty_db 7 = Inr []"
  by (simp add: empty_db_def getChaptersByBookId_def query_chapters_def)

text \<open>
  C3, amended: \<open>getChaptersByBookId\<close> never reads the books table, so its result is the
  same whatever that table holds, and no \<open>NotFound\<close> error exists. When the chapters
  query itself does not fail, for a book id that no row of the chapters table carries,
  whether the book exists or not, the result is the empty list, as a non-error result.
\<close>

theorem getChaptersByBookId_no_book_check:
  "getChaptersByBookId (db\<lparr>books_table := bt\<rparr>) b = getChaptersByBookId db b \<and>
   (query_chapters db = Inr tbl \<longrightarrow> (\<forall>r \<in> set tbl. row_chapter_book_id r \<noteq> b) \<longrightarrow>
      getChaptersByBookId db b = Inr [])"
  by (auto simp: getChaptersByBookId_def query_chapters_def filter_empty_conv
      split: option.splits)

text \<open>Book 3 has no chapter row (and no book row): the empty list.\<close>

theorem getChaptersByBookId_no_book_check_witness:
  "query_chapters chapters_db = Inr (the (chapters_table chapters_db)) \<and>
   3 \<notin> set (map row_chapter_book_id (the (chapters_table chapters_db))) \<and>
   getChaptersByBookId chapters_db 3 = Inr []"
  using getChaptersByBookId_no_book_check [where db = chapters_db and bt = None and b = 3
      and tbl = "the (chapters_table chapters_db)"]
  by (simp add: chapters_db_def query_chapters_def)

text \<open>
  C7, as stated, fails: nothing makes chapter numbers unique within a book, and two
  chapters of book 1 that both carry number 1 come back next to each other.
\<close>

theorem getChaptersByBookId_strict_counterexample:
  "getChaptersByBookId chapters_db 1 =
     Inr [\<lparr>chapter_id = 12, chapter_book_id = 1, chapter_number = 1, chapter_title = ''One'',
           body_text = ''a''\<rparr>,
          \<lparr>chapter_id = 13, chapter_book_id = 1, chapter_number = 1, chapter_title = ''Uno'',
           body_text = ''c''\<rparr>,
          \<lparr>chapter_id = 11, chapter_book_id = 1, chapter_number = 2,
           chapter_title = ''Chapter 2'', body_text = ''b''\<rparr>] \<and>
   \<not> sorted_wrt (<) [1, 1, 2 :: int]"
  by code_simp

text \<open>
  C7, amended: the chapter list returned by \<open>getChaptersByBookId\<close> is sorted ascending by
  \<open>chapter_number\<close> (each number is at least its predecessor's); it is strictly
  ascending when the chapter numbers of the book's rows are pairwise distinct.
\<close>

theorem getChaptersByBookId_sorted:
  assumes "getChaptersByBookId db b = Inr cs" and "query_chapters db = Inr tbl"
  shows "sorted (map chapter_number cs) \<and>
         (distinct (map row_chapter_number (filter (\<lambda>r. row_chapter_book_id r = b) tbl)) \<longrightarrow>
            sorted_wrt (<) (map chapter_number cs))"
proof -
  let ?rows = "filter (\<lambda>r. row_chapter_book_id r = b) tbl"
  from assms have cs: "cs = map to_chapter (sort_key row_chapter_number ?rows)"
    by (auto elim!: getChaptersByBookId_Inr)
  have m: "map chapter_number cs = map row_chapter_number (sort_key row_chapter_number ?rows)"
    unfolding cs by (rule chapter_number_to_chapter)
  have s: "sorted (map chapter_number cs)" unfolding m by (rule sorted_sort_key)
  have "distinct (map row_chapter_number ?rows) \<Longrightarrow> distinct (map chapter_number cs)"
    unfolding m by (simp add: distinct_map)
  with s show ?thesis by (simp add: strict_sorted_iff)
qed

text \<open>Book 2 stores chapter 3 before chapter 1; they come back as 1, 3.\<close>

theorem getChaptersByBookId_sorted_witness:
  "getChaptersByBookId chapters_db 2 = Inr [first_chapter, third_chapter] \<and>
   query_chapters chapters_db = Inr (the (chapters_table chapters_db)) \<and>
   distinct (map row_chapter_number
     (filter (\<lambda>r. row_chapter_book_id r = 2) (the (chapters_table chapters_db)))) \<and>
   sorted_wrt (<) (map chapter_number [first_chapter, third_chapter])"
proof -
  have h: "getChaptersByBookId chapters_db 2 = Inr [first_chapter, third_chapter]"
    by code_simp
  have q: "query_chapters chapters_db = Inr (the (chapters_table chapters_db))"
    by (simp add: chapters_db_def query_chapters_def)
  show ?thesis
    using h q getChaptersByBookId_sorted [OF h q] by (simp add: chapters_db_def)
qed

section \<open>Properties of favorites and bookmarks\<close>

lemma map_of_toggleBookmark:
  "map_of (toggleBookmark b i prev) =
     (if map_of prev b = Some i then (map_of prev)(b := None) else (map_of prev)(b \<mapsto> i))"
  by (simp add: toggleBookmark_def update_conv' delete_conv')

lemma distinct_toggleBookmark:
  "distinct (map fst prev) \<Longrightarrow> distinct (map fst (toggleBookmark b i prev))"
  by (simp add: toggleBookmark_def distinct_update distinct_delete)

lemma set_toggleFavorite:
  "set (toggleFavorite b prev) = (if b \<in> set prev then set prev - {b} else insert b (set prev))"
  by (auto simp: toggleFavorite_def)

text \<open>
  C5, as stated, fails: when the bookmark of book 1 is already chapter 4, the first
  \<open>toggleBookmark 1 4\<close> clears it and the second sets it again, so a bookmark is left.
\<close>

theorem toggleBookmark_twice_counterexample:
  "toggleBookmark 1 4 (toggleBookmark 1 4 [(1, 4)]) = [(1, 4)] \<and>
   map_of (toggleBookmark 1 4 (toggleBookmark 1 4 [(1, 4)])) 1 = Some 4"
  by (simp add: toggleBookmark_def)

text \<open>
  C5, amended: for every book id \<open>b\<close> and chapter index \<open>i\<close>, when the bookmark of \<open>b\<close> is
  not already \<open>i\<close> (none, or another chapter), toggling twice with the same arguments
  leaves no bookmark for \<open>b\<close>; setting a bookmark equal to the existing one clears it;
  and the bookmarks hold at most one entry per book id: a toggle keeps the keys
  distinct.
\<close>

theorem toggleBookmark_twice:
  "(map_of prev b \<noteq> Some i \<longrightarrow>
      map_of (toggleBookmark b i (toggleBookmark b i prev)) b = None) \<and>
   (map_of prev b = Some i \<longrightarrow> map_of (toggleBookmark b i prev) b = None) \<and>
   (distinct (map fst prev) \<longrightarrow> distinct (map fst (toggleBookmark b i prev)))"
  by (simp add: map_of_toggleBookmark distinct_toggleBookmark)

theorem toggleBookmark_twice_witness:
  "map_of [(1::int, 3::int), (2, 0)] 1 \<noteq> Some 4 \<and>
   map_of (toggleBookmark 1 4 (toggleBookmark 1 4 [(1, 3), (2, 0)])) 1 = None \<and>
   map_of [(1::int, 4::int), (2, 0)] 1 = Some 4 \<and>
   map_of (toggleBookmark 1 4 [(1, 4), (2, 0)]) 1 = None \<and>
   distinct (map fst [(1::int, 3::int), (2, 0)]) \<and>
   distinct (map fst (toggleBookmark 1 4 [(1, 3), (2, 0)]))"
  using toggleBookmark_twice [of "[(1, 3), (2, 0)]" 1 4]
        toggleBookmark_twice [of "[(1, 4), (2, 0)]" 1 4]
  by simp

text \<open>
  C6: one \<open>toggleFavorite b\<close> adds \<open>b\<close> if it is absent and removes it if it is present,
  and two restore the membership of \<open>b\<close>, from every starting list of favorites.
\<close>

theorem toggleFavorite_twice:
  "(b \<in> set (toggleFavorite b prev)) = (b \<notin> set prev) \<and>
   (b \<in> set (toggleFavorite b (toggleFavorite b prev))) = (b \<in> set prev)"
  by (simp add: set_toggleFavorite)

text \<open>
  C10: \<open>toggleBookmark b i\<close> changes at most the entry of \<open>b\<close>: the bookmark of every other
  book id is the one before; \<open>toggleFavorite b\<close> leaves the membership of every other id
  unchanged.
\<close>

theorem toggle_frame:
  assumes "b' \<noteq> b"
  shows "map_of (toggleBookmark b i prev) b' = map_of prev b' \<and>
         (b' \<in> set (toggleFavorite b favs)) = (b' \<in> set favs)"
  using assms by (simp add: map_of_toggleBookmark set_toggleFavorite)

theorem toggle_frame_witness:
  "(2::int) \<noteq> 1 \<and>
   map_of (toggleBookmark 1 4 [(1, 3), (2, 0)]) 2 = Some 0 \<and>
   (2 \<in> set (toggleFavorite 1 [1, 2])) = (2 \<in> set [1, 2 :: int])"
  using toggle_frame [of 2 1 4 "[(1, 3), (2, 0)]" "[1, 2]"] by simp

section \<open>Properties of book selection and of the Reader\<close>

text \<open>
  C8, as stated, fails: when the chapter fetch raises, \<open>handleBookSelect\<close> leaves the
  chapter index as it was. A reader closed at index 7, then a book with no bookmark
  selected on a closed database: the index is 7, not 0.
\<close>

theorem handleBookSelect_start_counterexample:
  "map_of (bookmarks reading_elsewhere) (book_id gora) = None \<and>
   currentChapterIdx (handleBookSelect closed_db gora reading_elsewhere) = 7"
  by (simp add: reading_elsewhere_def initial_app_def handleBookSelect_def closed_db_def
      getChaptersByBookId_def query_chapters_def gora_def)

text \<open>
  C8, amended: for every book selection whose chapter fetch returns, the reader's
  starting chapter index is the book's saved bookmark index whenever the bookmarks hold
  an entry for that book id, and 0 otherwise; the \<open>isBookmarked\<close> flag passed to the
  Reader is true exactly when the saved bookmark equals the current chapter index, so
  it is true right after selecting a bookmarked book.
\<close>

theorem handleBookSelect_start:
  assumes "getChaptersByBookId db (book_id b) = Inr cs"
  shows "currentChapterIdx (handleBookSelect db b st) =
           (case map_of (bookmarks st) (book_id b) of Some i \<Rightarrow> i | None \<Rightarrow> 0) \<and>
         chapters (handleBookSelect db b st) = cs \<and>
         selectedBook (handleBookSelect db b st) = Some b \<and>
         isBookmarked (reader_props s b) =
           (map_of (bookmarks s) (book_id b) = Some (currentChapterIdx s)) \<and>
         (map_of (bookmarks st) (book_id b) \<noteq> None \<longrightarrow>
            isBookmarked (reader_props (handleBookSelect db b st) b))"
  using assms by (auto simp: handleBookSelect_def reader_props_def)

text \<open>Book 2 with a bookmark at index 1: the reader opens at index 1, bookmarked.\<close>

theorem handleBookSelect_start_witness:
  "getChaptersByBookId chapters_db (book_id devdas) = Inr [first_chapter, third_chapter] \<and>
   map_of (bookmarks bookmarked_devdas) (book_id devdas) \<noteq> None \<and>
   currentChapterIdx (handleBookSelect chapters_db devdas bookmarked_devdas) = 1 \<and>
   isBookmarked (reader_props (handleBookSelect chapters_db devdas bookmarked_devdas) devdas)"
proof -
  have h: "getChaptersByBookId chapters_db (book_id devdas) = Inr [first_chapter, third_chapter]"
    by code_simp
  show ?thesis
    using h handleBookSelect_start [OF h, of bookmarked_devdas bookmarked_devdas]
    by (simp add: bookmarked_devdas_def initial_app_def devdas_def)
qed

text \<open>
  C9, as stated, fails: the Reader tests \<open>isLoading\<close> before it looks at the chapter, so
  with no chapter at the index and \<open>isLoading\<close> true it renders the loading screen, not
  the fallback.
\<close>

theorem Reader_fallback_counterexample:
  "js_index (rp_chapters loading_props) (currentChapterIndex loading_props) = None \<and>
   Reader loading_props = LoadingView"
  by (simp add: loading_props_def Reader_def js_index_def)

text \<open>
  C9, amended: for every chapters list and every index, \<open>chapters[currentChapterIndex]\<close>
  yields no chapter exactly when the index lies outside \<open>[0, chapters.length - 1]\<close>
  (always, for the empty list); then the Reader, unless \<open>isLoading\<close> is true, renders the
  fallback with the book's title; when \<open>isLoading\<close> is true it renders the loading
  screen; and it renders the chapter screen only when a chapter exists at the index, and
  then with that chapter.
\<close>

theorem Reader_fallback:
  "(js_index (rp_chapters p) (currentChapterIndex p) = None) =
     (currentChapterIndex p < 0 \<or> int (length (rp_chapters p)) \<le> currentChapterIndex p) \<and>
   (isLoading p \<noteq> Some True \<longrightarrow>
    (currentChapterIndex p < 0 \<or> int (length (rp_chapters p)) \<le> currentChapterIndex p) \<longrightarrow>
      Reader p = NoContentView (title (rp_book p))) \<and>
   (isLoading p = Some True \<longrightarrow> Reader p = LoadingView) \<and>
   (Reader p = ChapterView ch h hp hn bm \<longrightarrow>
      0 \<le> currentChapterIndex p \<and> currentChapterIndex p < int (length (rp_chapters p)) \<and>
      ch = rp_chapters p ! nat (currentChapterIndex p))"
  by (auto simp: Reader_def js_index_def Let_def split: if_splits)

theorem Reader_fallback_witness:
  "isLoading (loading_props\<lparr>isLoading := None\<rparr>) \<noteq> Some True \<and>
   int (length (rp_chapters (loading_props\<lparr>isLoading := None\<rparr>)))
     \<le> currentChapterIndex (loading_props\<lparr>isLoading := None\<rparr>) \<and>
   Reader (loading_props\<lparr>isLoading := None\<rparr>) = NoContentView ''Gora'' \<and>
   isLoading loading_props = Some True \<and> Reader loading_props = LoadingView \<and>
   Reader one_chapter_props = ChapterView first_chapter ''First'' False False False \<and>
   currentChapterIndex one_chapter_props < int (length (rp_chapters one_chapter_props))"
proof -
  have h: "Reader one_chapter_props = ChapterView first_chapter ''First'' False False False"
    by (simp add: Reader_def one_chapter_props_def js_index_def first_chapter_def)
  show ?thesis
    using h Reader_fallback [of "loading_props\<lparr>isLoading := None\<rparr>"]
      Reader_fallback [of loading_props]
      Reader_fallback [of one_chapter_props first_chapter "''First''" False False False]
    by (simp add: loading_props_def gora_def)
qed

section \<open>Properties of the fetch-books effect\<close>

text \<open>
  C2: a fetch that raises an error of a missing table or a closed connection is followed
  by one automatic full re-initialisation and a retry of the query, and the request
  reaches the error state only if the retried query fails too. The controller is built
  to do this and the code misses it by a slip. The
  catch branch awaits \<open>runFullInit\<close> and then falls through to
  \<open>setLoadingState('error')\<close>, whatever the retry will give. Here the first query raises
  \<open>database is closed\<close> and the re-initialisation succeeds: the callback ends in the
  error state; the re-initialisation has replaced \<open>favorites\<close> and \<open>bookmarks\<close>, so the
  dependencies of the effect differ and the callback runs again (the retry); that run
  finds the book and ends in \<open>success\<close>. The request was in the error state although
  the retried query did not fail. (The runs are taken in this order: the
  re-initialisation ends before the re-scheduled timer fires.)
\<close>

theorem fetchBooks_error_before_retry:
  "getAllBooks zero_draws closed_db (fetch_params library_view) =
     Inl (JsError ''database is closed'') \<and>
   fst (fetchBooks zero_draws closed_db one_book_db saved_storage library_view) = Inr () \<and>
   loadingState after_reinit = LS_error \<and>
   calls after_reinit =
     [Call_getAllBooks (fetch_params library_view), Call_runFullInit, Call_getAllAuthors] \<and>
   fetch_deps after_reinit \<noteq> fetch_deps library_view \<and>
   fst (fetchBooks zero_draws one_book_db one_book_db saved_storage after_reinit) = Inr () \<and>
   loadingState (snd (fetchBooks zero_draws one_book_db one_book_db saved_storage after_reinit)) =
     LS_success \<and>
   books (snd (fetchBooks zero_draws one_book_db one_book_db saved_storage after_reinit)) =
     [gora] \<and>
   calls (snd (fetchBooks zero_draws one_book_db one_book_db saved_storage after_reinit)) =
     [Call_getAllBooks (fetch_params library_view), Call_runFullInit, Call_getAllAuthors,
      Call_getAllBooks (fetch_params library_view)]"
  by code_simp

text \<open>
  When the database stays closed, \<open>runFullInit\<close> itself raises at \<open>getAllAuthors\<close>, after
  its setters: the exception leaves the callback, the state stays \<open>loading\<close>, and the
  effect is due again; the next run re-initialises once more.
\<close>

lemma fetchBooks_reinit_repeats:
  "fst (fetchBooks zero_draws closed_db closed_db saved_storage library_view) =
     Inl (JsError ''database is closed'') \<and>
   loadingState after_failed_reinit = LS_loading \<and>
   fetch_deps after_failed_reinit \<noteq> fetch_deps library_view \<and>
   loadingState (snd (fetchBooks zero_draws closed_db closed_db saved_storage after_failed_reinit)) =
     LS_loading \<and>
   calls (snd (fetchBooks zero_draws closed_db closed_db saved_storage after_failed_reinit)) =
     [Call_getAllBooks (fetch_params library_view), Call_runFullInit, Call_getAllAuthors,
      Call_getAllBooks (fetch_params library_view), Call_runFullInit, Call_getAllAuthors]"
  by code_simp

end
